theory Spec2Isabelle
  imports Main "HOL-Library.Sublist"
begin

section \<open>Python strings\<close>

text \<open>
  A Python \<open>str\<close> is modelled as a \<open>string\<close> whose characters are the code points
  below 256. On these, \<open>str.isspace\<close> holds for 0x09..0x0D, 0x1C..0x20, 0x85 and 0xA0,
  and \<open>str.lower\<close> adds 0x20 to 0x41..0x5A and to 0xC0..0xDE except 0xD7, one character
  for one character.
\<close>

definition isspace :: "char \<Rightarrow> bool" where
  "isspace c =
     (let n = (of_char c :: nat)
      in (9 \<le> n \<and> n \<le> 13) \<or> (28 \<le> n \<and> n \<le> 32) \<or> n = 133 \<or> n = 160)"

definition lower_char :: "char \<Rightarrow> char" where
  "lower_char c =
     (let n = (of_char c :: nat)
      in if (65 \<le> n \<and> n \<le> 90) \<or> (192 \<le> n \<and> n \<le> 222 \<and> n \<noteq> 215)
         then char_of (n + 32) else c)"

definition lower :: "string \<Rightarrow> string" where
  "lower s = map lower_char s"

definition strip :: "string \<Rightarrow> string" where
  "strip s = rev (dropWhile isspace (rev (dropWhile isspace s)))"

text \<open>\<open>needle in hay\<close> on two \<open>str\<close> values: \<open>needle\<close> occurs in \<open>hay\<close> as a contiguous run.\<close>

definition str_in :: "string \<Rightarrow> string \<Rightarrow> bool" where
  "str_in needle hay = sublist needle hay"

section \<open>The window's state\<close>

text \<open>
  One row of \<open>games_store\<close>, the \<open>Gtk.ListStore(bool, str, str)\<close> holding
  \<open>(toggled, app_id, name)\<close>.
\<close>

record game_row =
  toggled :: bool
  app_id :: string
  game_name :: string

text \<open>
  The fields of the window that the handlers read and write, together with what the handlers
  do to the outside: the message dialogs shown (oldest first), the URLs requested with
  \<open>requests.get\<close> (oldest first), and the files on disk (path to content).
\<close>

record window =
  games_store :: "game_row list"
  search_text :: string
  profile_entry :: string
  library_entry :: string
  dialogs :: "string list"
  http_log :: "string list"
  files :: "string \<rightharpoonup> string"

datatype error = ValueError | KeyError

definition show_message :: "window \<Rightarrow> string \<Rightarrow> window" where
  "show_message w message = w\<lparr>dialogs := dialogs w @ [message]\<rparr>"

section \<open>Search filter\<close>

definition on_search_changed :: "window \<Rightarrow> string \<Rightarrow> window" where
  "on_search_changed w entry_text = w\<lparr>search_text := lower (strip entry_text)\<rparr>"

definition game_filter :: "window \<Rightarrow> game_row \<Rightarrow> bool" where
  "game_filter w row =
     (if search_text w = [] then True
      else str_in (search_text w) (lower (game_name row)))"


definition filtered_store :: "window \<Rightarrow> game_row list" where
  "filtered_store w = filter (game_filter w) (games_store w)"


section \<open>Toggling a row\<close>



section \<open>Refreshing the list of games\<close>

text \<open>
  An \<open>xml.etree.ElementTree\<close> element, as far as the handler reads it: tag, text
  (\<open>None\<close> for an element without text) and children.
\<close>

datatype element = Element (elem_tag: string) (elem_text: "string option")
  (elem_children: "element list")

text \<open>\<open>root.iter(tag)\<close>: the element itself, then its descendants, in document order.\<close>

fun iter_elem :: "element \<Rightarrow> element list" where
  "iter_elem (Element t x cs) = Element t x cs # concat (map iter_elem cs)"

definition iter_tag :: "string \<Rightarrow> element \<Rightarrow> element list" where
  "iter_tag tg e = filter (\<lambda>x. elem_tag x = tg) (iter_elem e)"

text \<open>\<open>game.find(tag)\<close>: the first child with that tag.\<close>

definition find_child :: "string \<Rightarrow> element \<Rightarrow> element option" where
  "find_child tg e = List.find (\<lambda>c. elem_tag c = tg) (elem_children e)"

text \<open>\<open>game.find(tag).text if game.find(tag) is not None else None\<close>\<close>

definition field_text :: "string \<Rightarrow> element \<Rightarrow> string option" where
  "field_text tg game = (case find_child tg game of None \<Rightarrow> None | Some c \<Rightarrow> elem_text c)"

text \<open>
  What the handlers call outside the program: \<open>requests.get\<close> with \<open>raise_for_status\<close>
  (\<open>Inl\<close> the text of the \<open>RequestException\<close>, \<open>Inr\<close> the response text),
  \<open>ET.fromstring\<close> (\<open>Inl\<close> the text of the \<open>ParseError\<close>), \<open>os.path.isdir\<close>, and
  opening a path for writing and writing it (\<open>Some\<close> the text of the \<open>OSError\<close>).
\<close>

record environment =
  requests_get :: "string \<Rightarrow> string + string"
  ET_fromstring :: "string \<Rightarrow> string + element"
  os_path_isdir :: "string \<Rightarrow> bool"
  open_write :: "string \<Rightarrow> string option"

definition append_game :: "window \<Rightarrow> element \<Rightarrow> window" where
  "append_game w game =
     (case (field_text ''appID'' game, field_text ''name'' game) of
        (Some a, Some n) \<Rightarrow>
          if a \<noteq> [] \<and> n \<noteq> []
          then w\<lparr>games_store :=
                   games_store w @ [\<lparr>toggled = False, app_id = a, game_name = n\<rparr>]\<rparr>
          else w
      | _ \<Rightarrow> w)"

text \<open>The f-string that builds the URL from the stripped profile id.\<close>

definition games_url :: "string \<Rightarrow> string" where
  "games_url profile_id = ''https://steamcommunity.com/id/'' @ profile_id @ ''/games?tab=all&xml=1''"

definition on_refresh_click :: "environment \<Rightarrow> window \<Rightarrow> window" where
  "on_refresh_click ev w =
     (let profile_id = strip (profile_entry w)
      in if profile_id = [] then show_message w ''Please enter a profile ID.''
         else
           let url = games_url profile_id;
               w1 = w\<lparr>http_log := http_log w @ [url]\<rparr>
           in case requests_get ev url of
                Inl e \<Rightarrow> show_message w1 (''Failed to fetch the profile: '' @ e)
              | Inr response_text \<Rightarrow>
                  let w2 = w1\<lparr>games_store := []\<rparr>
                  in case ET_fromstring ev response_text of
                       Inl e \<Rightarrow> show_message w2 (''Failed to parse the XML: '' @ e)
                     | Inr root \<Rightarrow> foldl append_game w2 (iter_tag ''game'' root))"

section \<open>Writing the manifests\<close>

definition STEAM_MANIFEST_TEMPLATE :: string where
  "STEAM_MANIFEST_TEMPLATE =
     ''\"AppState\"\<newline>'' @
     ''{{\<newline>'' @
     ''    \"AppID\"        \"{app_id}\"\<newline>'' @
     ''    \"Universe\"      \"1\"\<newline>'' @
     ''    \"name\"          \"{app_name}\"\<newline>'' @
     ''    \"StateFlags\"    \"4\"\<newline>'' @
     ''    \"installdir\"    \"{app_name}\"\<newline>'' @
     ''    \"LastUpdated\"   \"0\"\<newline>'' @
     ''    \"UpdateResult\"  \"0\"\<newline>'' @
     ''    \"SizeOnDisk\"    \"0\"\<newline>'' @
     ''    \"buildid\"       \"0\"\<newline>'' @
     ''    \"LastOwner\"     \"0\"\<newline>'' @
     ''    \"BytesToDownload\"   \"0\"\<newline>'' @
     ''    \"BytesDownloaded\"   \"0\"\<newline>'' @
     ''    \"BytesToStage\"      \"0\"\<newline>'' @
     ''    \"BytesStaged\"       \"0\"\<newline>'' @
     ''}}\<newline>''"

text \<open>
  \<open>str.format\<close> with keyword arguments, for templates whose fields are plain names:
  \<open>{{\<close> and \<open>}}\<close> stand for one brace, \<open>{name}\<close> for the argument of that name,
  inserted as it is. A lone brace raises \<open>ValueError\<close>, an unknown name \<open>KeyError\<close>.
\<close>

function py_format :: "(string \<times> string) list \<Rightarrow> string \<Rightarrow> error + string" where
  "py_format kw [] = Inr []"
| "py_format kw (c # cs) =
     (if c = CHR ''{'' then
        (if take 1 cs = ''{'' then
           (case py_format kw (drop 1 cs) of Inl e \<Rightarrow> Inl e | Inr r \<Rightarrow> Inr (CHR ''{'' # r))
         else if dropWhile (\<lambda>x. x \<noteq> CHR ''}'') cs = [] then Inl ValueError
         else
           (case map_of kw (takeWhile (\<lambda>x. x \<noteq> CHR ''}'') cs) of
              None \<Rightarrow> Inl KeyError
            | Some v \<Rightarrow>
                (case py_format kw (drop 1 (dropWhile (\<lambda>x. x \<noteq> CHR ''}'') cs)) of
                   Inl e \<Rightarrow> Inl e
                 | Inr r \<Rightarrow> Inr (v @ r))))
      else if c = CHR ''}'' then
        (if take 1 cs = ''}'' then
           (case py_format kw (drop 1 cs) of Inl e \<Rightarrow> Inl e | Inr r \<Rightarrow> Inr (CHR ''}'' # r))
         else Inl ValueError)
      else
        (case py_format kw cs of Inl e \<Rightarrow> Inl e | Inr r \<Rightarrow> Inr (c # r)))"
  by pat_completeness auto
termination
  by (relation "measure (\<lambda>(kw, s). length s)")
     (auto intro!: le_imp_less_Suc le_trans [OF diff_le_self length_dropWhile_le])

text \<open>\<open>posixpath.join\<close> of two components.\<close>

definition os_path_join :: "string \<Rightarrow> string \<Rightarrow> string" where
  "os_path_join a b =
     (if take 1 b = ''/'' then b
      else if a = [] \<or> last a = CHR ''/'' then a @ b
      else a @ ''/'' @ b)"

text \<open>\<open>os.path.join(steam_path, f"appmanifest_{app_id}.acf")\<close>\<close>

definition manifest_path :: "string \<Rightarrow> string \<Rightarrow> string" where
  "manifest_path steam_path app_id' =
     os_path_join steam_path (''appmanifest_'' @ app_id' @ ''.acf'')"

text \<open>\<open>str\<close> of a non-negative \<open>int\<close>.\<close>

fun str_nat :: "nat \<Rightarrow> string" where
  "str_nat n =
     (if n < 10 then [char_of (48 + n)]
      else str_nat (n div 10) @ [char_of (48 + n mod 10)])"

declare str_nat.simps [simp del]

text \<open>
  The loop over \<open>games_store\<close>, with \<open>created_count\<close> and the window threaded through. An
  exception other than \<open>OSError\<close> leaves the handler.
\<close>

fun write_manifests ::
  "environment \<Rightarrow> string \<Rightarrow> game_row list \<Rightarrow> nat \<times> window \<Rightarrow> error + nat \<times> window" where
  "write_manifests ev steam_path [] (created_count, w) = Inr (created_count, w)"
| "write_manifests ev steam_path (row # rows) (created_count, w) =
     (if toggled row then
        (case py_format [(''app_id'', app_id row), (''app_name'', game_name row)]
                STEAM_MANIFEST_TEMPLATE of
           Inl e \<Rightarrow> Inl e
         | Inr manifest_content \<Rightarrow>
             (case open_write ev (manifest_path steam_path (app_id row)) of
                None \<Rightarrow>
                  write_manifests ev steam_path rows
                    (created_count + 1,
                     w\<lparr>files := (files w)
                          (manifest_path steam_path (app_id row) \<mapsto> manifest_content)\<rparr>)
              | Some e \<Rightarrow>
                  write_manifests ev steam_path rows
                    (created_count,
                     show_message w
                       (''Error creating manifest for '' @ game_name row @ '': '' @ e))))
      else write_manifests ev steam_path rows (created_count, w))"

definition on_download_click :: "environment \<Rightarrow> window \<Rightarrow> error + window" where
  "on_download_click ev w =
     (let steam_path = library_entry w
      in if \<not> os_path_isdir ev steam_path
         then Inr (show_message w ''Please provide a valid Steam library path.'')
         else
           (case write_manifests ev steam_path (games_store w) (0, w) of
              Inl e \<Rightarrow> Inl e
            | Inr (created_count, w') \<Rightarrow>
                Inr (show_message w'
                       (''Successfully created '' @ str_nat created_count
                          @ '' manifest files.''))))"

section \<open>The specification's terms and example states\<close>


text \<open>
  The claim's words: a \<open>game\<close> element has an identifier child and a name child with
  non-empty text when some child of that tag has non-empty text. \<open>claimed_games\<close> are the
  \<open>game\<close> elements of a document for which the claim promises a record.
\<close>

definition has_text_child :: "string \<Rightarrow> element \<Rightarrow> bool" where
  "has_text_child tg g =
     list_ex (\<lambda>c. elem_tag c = tg \<and> (case elem_text c of None \<Rightarrow> False | Some t \<Rightarrow> t \<noteq> []))
       (elem_children g)"

definition claimed_games :: "element \<Rightarrow> element list" where
  "claimed_games root =
     filter (\<lambda>g. has_text_child ''appID'' g \<and> has_text_child ''name'' g)
       (iter_tag ''game'' root)"

text \<open>
  The amended words: a \<open>game\<close> element has a field when the first of its children of
  that tag has non-empty text, and the value of the field is that text. The record of a game
  element carries the two values and is not selected.
\<close>

definition first_child :: "string \<Rightarrow> element \<Rightarrow> element option" where
  "first_child tg g =
     (case filter (\<lambda>c. elem_tag c = tg) (elem_children g) of
        [] \<Rightarrow> None
      | c # _ \<Rightarrow> Some c)"

definition has_field :: "string \<Rightarrow> element \<Rightarrow> bool" where
  "has_field tg g =
     (case first_child tg g of
        None \<Rightarrow> False
      | Some c \<Rightarrow> (case elem_text c of None \<Rightarrow> False | Some t \<Rightarrow> t \<noteq> []))"

definition field_value :: "string \<Rightarrow> element \<Rightarrow> string" where
  "field_value tg g =
     (case first_child tg g of
        None \<Rightarrow> []
      | Some c \<Rightarrow> (case elem_text c of None \<Rightarrow> [] | Some t \<Rightarrow> t))"

definition record_of_game :: "element \<Rightarrow> game_row" where
  "record_of_game g =
     \<lparr>toggled = False, app_id = field_value ''appID'' g, game_name = field_value ''name'' g\<rparr>"

definition complete_games :: "element list \<Rightarrow> element list" where
  "complete_games gs = filter (\<lambda>g. has_field ''appID'' g \<and> has_field ''name'' g) gs"

definition parsed_records :: "element \<Rightarrow> game_row list" where
  "parsed_records root = map record_of_game (complete_games (iter_tag ''game'' root))"


definition alpha_row :: game_row where
  "alpha_row = \<lparr>toggled = False, app_id = ''10'', game_name = ''Alpha''\<rparr>"

definition beta_row :: game_row where
  "beta_row = \<lparr>toggled = False, app_id = ''20'', game_name = ''Beta''\<rparr>"

definition example_window :: window where
  "example_window =
     \<lparr>games_store = [alpha_row, beta_row], search_text = [], profile_entry = ''gabe'',
      library_entry = ''/lib'', dialogs = [], http_log = [], files = Map.empty\<rparr>"

text \<open>
  The manifest file format of the specification, with the identifier and the display name
  put in as they are.
\<close>

definition manifest_text :: "string \<Rightarrow> string \<Rightarrow> string" where
  "manifest_text identifier displayName =
     ''\"AppState\"\<newline>'' @
     ''{\<newline>'' @
     ''    \"AppID\"        \"'' @ identifier @ ''\"\<newline>'' @
     ''    \"Universe\"      \"1\"\<newline>'' @
     ''    \"name\"          \"'' @ displayName @ ''\"\<newline>'' @
     ''    \"StateFlags\"    \"4\"\<newline>'' @
     ''    \"installdir\"    \"'' @ displayName @ ''\"\<newline>'' @
     ''    \"LastUpdated\"   \"0\"\<newline>'' @
     ''    \"UpdateResult\"  \"0\"\<newline>'' @
     ''    \"SizeOnDisk\"    \"0\"\<newline>'' @
     ''    \"buildid\"       \"0\"\<newline>'' @
     ''    \"LastOwner\"     \"0\"\<newline>'' @
     ''    \"BytesToDownload\"   \"0\"\<newline>'' @
     ''    \"BytesDownloaded\"   \"0\"\<newline>'' @
     ''    \"BytesToStage\"      \"0\"\<newline>'' @
     ''    \"BytesStaged\"       \"0\"\<newline>'' @
     ''}\<newline>''"

text \<open>
  The file \<open>appmanifest_<identifier>.acf\<close> directly in the directory \<open>D\<close>: \<open>D\<close>, a
  slash unless \<open>D\<close> is empty or ends with one, and the file name.
\<close>

definition manifest_file :: "string \<Rightarrow> string \<Rightarrow> string" where
  "manifest_file D identifier =
     (if D = [] \<or> last D = CHR ''/'' then D else D @ ''/'')
       @ ''appmanifest_'' @ identifier @ ''.acf''"

text \<open>
  The selected records whose manifest can be written and those whose manifest cannot, the
  file system after one manifest is written, and the message for a manifest that failed.
\<close>

definition written :: "environment \<Rightarrow> string \<Rightarrow> game_row list \<Rightarrow> game_row list" where
  "written ev D rows =
     filter (\<lambda>r. toggled r \<and> open_write ev (manifest_file D (app_id r)) = None) rows"

definition failed :: "environment \<Rightarrow> string \<Rightarrow> game_row list \<Rightarrow> game_row list" where
  "failed ev D rows =
     filter (\<lambda>r. toggled r \<and> open_write ev (manifest_file D (app_id r)) \<noteq> None) rows"

definition store_manifest ::
  "string \<Rightarrow> (string \<rightharpoonup> string) \<Rightarrow> game_row \<Rightarrow> (string \<rightharpoonup> string)" where
  "store_manifest D fs r =
     fs(manifest_file D (app_id r) \<mapsto> manifest_text (app_id r) (game_name r))"

definition error_dialog :: "environment \<Rightarrow> string \<Rightarrow> game_row \<Rightarrow> string" where
  "error_dialog ev D r =
     (case open_write ev (manifest_file D (app_id r)) of
        None \<Rightarrow> []
      | Some e \<Rightarrow> ''Error creating manifest for '' @ game_name r @ '': '' @ e)"

definition success_dialog :: "nat \<Rightarrow> string" where
  "success_dialog n = ''Successfully created '' @ str_nat n @ '' manifest files.''"

definition both_selected :: window where
  "both_selected =
     example_window\<lparr>games_store := [alpha_row\<lparr>toggled := True\<rparr>, beta_row\<lparr>toggled := True\<rparr>]\<rparr>"

text \<open>Both rows selected, the row whose manifest cannot be written first.\<close>

definition beta_first :: window where
  "beta_first =
     both_selected
       \<lparr>games_store := [beta_row\<lparr>toggled := True\<rparr>, alpha_row\<lparr>toggled := True\<rparr>]\<rparr>"

definition selected_window :: window where
  "selected_window = example_window\<lparr>games_store := [alpha_row\<lparr>toggled := True\<rparr>, beta_row]\<rparr>"

definition leaf :: "string \<Rightarrow> string \<Rightarrow> element" where
  "leaf tg t = Element tg (Some t) []"

text \<open>
  A parsed games list: a complete game, one without a name, one without an identifier, one
  whose identifier element is empty, and another complete game.
\<close>

definition example_root :: element where
  "example_root =
     Element ''gamesList'' None
       [Element ''games'' None
          [Element ''game'' None [leaf ''appID'' ''10'', leaf ''name'' ''Alpha''],
           Element ''game'' None [leaf ''appID'' ''30''],
           Element ''game'' None [leaf ''name'' ''Gamma''],
           Element ''game'' None [Element ''appID'' None [], leaf ''name'' ''Delta''],
           Element ''game'' None [leaf ''appID'' ''20'', leaf ''name'' ''Beta'']]]"

text \<open>
  An environment in which the profile \<open>gabe\<close> answers with a document that parses to
  \<open>example_root\<close>, \<open>/lib\<close> is the only directory, and one manifest cannot be written.
\<close>

definition example_env :: environment where
  "example_env =
     \<lparr>requests_get =
        (\<lambda>url. if url = games_url ''gabe'' then Inr ''<gamesList/>'' else Inl ''404''),
      ET_fromstring =
        (\<lambda>t. if t = ''<gamesList/>'' then Inr example_root else Inl ''syntax error''),
      os_path_isdir = (\<lambda>p. p = ''/lib''),
      open_write =
        (\<lambda>p. if p = ''/lib/appmanifest_20.acf'' then Some ''Permission denied'' else None)\<rparr>"

text \<open>The same environment with every manifest writable.\<close>

definition writable_env :: environment where
  "writable_env = example_env\<lparr>open_write := (\<lambda>p. None)\<rparr>"

text \<open>
  A document whose only game has an empty \<open>appID\<close> element before one with text, and the
  environment that answers with it.
\<close>

definition dup_game :: element where
  "dup_game =
     Element ''game'' None [Element ''appID'' None [], leaf ''appID'' ''5'', leaf ''name'' ''X'']"

definition dup_root :: element where
  "dup_root = Element ''gamesList'' None [Element ''games'' None [dup_game]]"

definition dup_env :: environment where
  "dup_env = example_env\<lparr>ET_fromstring := (\<lambda>t. Inr dup_root)\<rparr>"

text \<open>The same environment with the network down.\<close>

definition offline_env :: environment where
  "offline_env = example_env\<lparr>requests_get := (\<lambda>url. Inl ''timed out'')\<rparr>"

text \<open>The same environment with a response body that is not well-formed.\<close>

definition malformed_env :: environment where
  "malformed_env = example_env\<lparr>requests_get := (\<lambda>url. Inr ''<gamesList'')\<rparr>"

section \<open>Helper lemmas on strings\<close>

lemma strip_Nil: "strip [] = []"
  by (simp add: strip_def)

lemma dropWhile_all: "(\<forall>x \<in> set (dropWhile P xs). P x) \<longleftrightarrow> (\<forall>x \<in> set xs. P x)"
proof
  assume a: "\<forall>x \<in> set (dropWhile P xs). P x"
  have "dropWhile P xs = []"
  proof (rule ccontr)
    assume ne: "dropWhile P xs \<noteq> []"
    then have "\<not> P (hd (dropWhile P xs))" by (rule hd_dropWhile)
    moreover from ne have "hd (dropWhile P xs) \<in> set (dropWhile P xs)" by simp
    ultimately show False using a by blast
  qed
  then show "\<forall>x \<in> set xs. P x" by (simp add: dropWhile_eq_Nil_conv)
next
  assume "\<forall>x \<in> set xs. P x"
  then show "\<forall>x \<in> set (dropWhile P xs). P x" by (auto dest: set_dropWhileD)
qed

lemma strip_all_space: "(\<forall>c \<in> set s. isspace c) \<longleftrightarrow> strip s = []"
  by (simp add: strip_def dropWhile_eq_Nil_conv dropWhile_all)


lemmas str_eval =
  lower_def lower_char_def strip_def isspace_def str_in_def sublist_code char_of_def bit_iff_odd

lemmas example_defs =
  example_window_def selected_window_def alpha_row_def beta_row_def example_env_def
  malformed_env_def example_root_def leaf_def both_selected_def writable_env_def
  dup_game_def dup_root_def dup_env_def offline_env_def

section \<open>The search filter (C1, C10)\<close>






text \<open>
  C10: the filter string is stripped before it is stored, so for every batch a filter string
  of whitespace only makes every record visible, as the empty filter string does.
\<close>

theorem whitespace_filter_shows_all:
  assumes "\<forall>c \<in> set s. isspace c"
  shows "search_text (on_search_changed w s) = []
         \<and> filtered_store (on_search_changed w s) = games_store w
         \<and> filtered_store (on_search_changed w s) = filtered_store (on_search_changed w [])"
proof -
  from assms have "strip s = []"
    by (simp add: strip_all_space)
  then show ?thesis
    by (simp add: filtered_store_def game_filter_def on_search_changed_def strip_Nil lower_def)
qed

theorem whitespace_filter_shows_all_witness:
  "isspace CHR '' ''
   \<and> filtered_store (on_search_changed example_window ''  '') = [alpha_row, beta_row]"
proof -
  have h: "\<forall>c \<in> set ''  ''. isspace c"
    by (simp add: isspace_def)
  from whitespace_filter_shows_all [OF h, of example_window] h show ?thesis
    by (simp add: example_window_def)
qed

section \<open>Refreshing (C2, C4, C5, C9)\<close>

lemma find_filter:
  "List.find P xs = (case filter P xs of [] \<Rightarrow> None | x # _ \<Rightarrow> Some x)"
  by (induction xs) simp_all

lemma find_child_first: "find_child tg g = first_child tg g"
  by (simp add: find_child_def first_child_def find_filter)

lemma append_game_eq:
  "append_game w g =
     (if has_field ''appID'' g \<and> has_field ''name'' g
      then w\<lparr>games_store := games_store w @ [record_of_game g]\<rparr> else w)"
  by (simp add: append_game_def field_text_def find_child_first has_field_def
      record_of_game_def field_value_def split: option.splits)

lemma foldl_append_game:
  "foldl append_game w gs =
     w\<lparr>games_store := games_store w @ map record_of_game (complete_games gs)\<rparr>"
  by (induction gs arbitrary: w) (simp_all add: append_game_eq complete_games_def)

lemma refresh_success:
  assumes "strip (profile_entry w) \<noteq> []"
    and "requests_get ev (games_url (strip (profile_entry w))) = Inr body"
    and "ET_fromstring ev body = Inr root"
  shows "on_refresh_click ev w =
           w\<lparr>http_log := http_log w @ [games_url (strip (profile_entry w))],
             games_store := parsed_records root\<rparr>"
  using assms by (simp add: on_refresh_click_def Let_def foldl_append_game parsed_records_def)

lemma refresh_http_log:
  "http_log (on_refresh_click ev w) =
     (if strip (profile_entry w) = [] then http_log w
      else http_log w @ [games_url (strip (profile_entry w))])"
  by (simp add: on_refresh_click_def Let_def show_message_def foldl_append_game
      split: sum.splits)

lemma example_profile: "strip (profile_entry example_window) = ''gabe''"
  by (simp add: example_defs str_eval)

lemma selected_profile: "strip (profile_entry selected_window) = ''gabe''"
  by (simp add: example_defs str_eval)

lemma example_get:
  "requests_get example_env (games_url (strip (profile_entry example_window)))
     = Inr ''<gamesList/>''"
  unfolding example_profile by (simp add: example_env_def)

lemma example_fromstring: "ET_fromstring example_env ''<gamesList/>'' = Inr example_root"
  by (simp add: example_env_def)

lemma example_parsed: "parsed_records example_root = [alpha_row, beta_row]"
  by (simp add: parsed_records_def complete_games_def iter_tag_def has_field_def
      first_child_def record_of_game_def field_value_def example_defs)

lemma parse_error_store:
  assumes "strip (profile_entry w) \<noteq> []"
    and "requests_get ev (games_url (strip (profile_entry w))) = Inr body"
    and "ET_fromstring ev body = Inl e"
  shows "games_store (on_refresh_click ev w) = []"
    and "dialogs (on_refresh_click ev w) = dialogs w @ [''Failed to parse the XML: '' @ e]"
  using assms by (simp_all add: on_refresh_click_def Let_def show_message_def)

lemma request_error_store:
  assumes "strip (profile_entry w) \<noteq> []"
    and "requests_get ev (games_url (strip (profile_entry w))) = Inl e"
  shows "games_store (on_refresh_click ev w) = games_store w"
  using assms by (simp add: on_refresh_click_def Let_def show_message_def)

text \<open>
  C2: the claim holds on the two other failing paths of the handler, which return with the
  stored batch as it was, and fails on the path it is about: \<open>games_store.clear()\<close> stands
  before the \<open>try\<close> that parses the response, not after it, so a body that does not parse
  leaves the store empty. In the window with Alpha selected and Beta not, a refresh that
  meets a malformed body reports the parse error and wipes both rows, while a refresh that
  meets a transport failure keeps them.
\<close>

theorem parse_error_wipes_batch:
  "games_store selected_window = [alpha_row\<lparr>toggled := True\<rparr>, beta_row]
   \<and> games_store (on_refresh_click malformed_env selected_window) = []
   \<and> dialogs (on_refresh_click malformed_env selected_window)
       = [''Failed to parse the XML: syntax error'']
   \<and> games_store (on_refresh_click offline_env selected_window)
       = [alpha_row\<lparr>toggled := True\<rparr>, beta_row]"
proof -
  have p: "strip (profile_entry selected_window) \<noteq> []"
    by (simp add: selected_profile)
  have s: "games_store selected_window = [alpha_row\<lparr>toggled := True\<rparr>, beta_row]"
    by (simp add: selected_window_def)
  have d: "dialogs selected_window = []"
    by (simp add: selected_window_def example_window_def)
  have g: "requests_get malformed_env (games_url (strip (profile_entry selected_window)))
             = Inr ''<gamesList''"
    by (simp add: malformed_env_def)
  have x: "ET_fromstring malformed_env ''<gamesList'' = Inl ''syntax error''"
    by (simp add: malformed_env_def example_env_def)
  have n: "requests_get offline_env (games_url (strip (profile_entry selected_window)))
             = Inl ''timed out''"
    by (simp add: offline_env_def)
  note wiped = parse_error_store [OF p g x]
  note kept = request_error_store [OF p n]
  from wiped(2) d
  have "dialogs (on_refresh_click malformed_env selected_window)
          = [''Failed to parse the XML: syntax error'']"
    by simp
  with s wiped(1) kept show ?thesis
    by simp
qed

text \<open>
  C4: for every prior batch, whatever its selected flags, a refresh whose response parses
  discards the prior batch and installs the records of the response, every one of them not
  selected.
\<close>

theorem refresh_replaces_batch:
  assumes "strip (profile_entry w) \<noteq> []"
    and "requests_get ev (games_url (strip (profile_entry w))) = Inr body"
    and "ET_fromstring ev body = Inr root"
  shows "games_store (on_refresh_click ev (w\<lparr>games_store := prior\<rparr>)) = parsed_records root
         \<and> (\<forall>r \<in> set (games_store (on_refresh_click ev (w\<lparr>games_store := prior\<rparr>))).
               \<not> toggled r)"
proof -
  from assms have "on_refresh_click ev (w\<lparr>games_store := prior\<rparr>) =
      w\<lparr>http_log := http_log w @ [games_url (strip (profile_entry w))],
        games_store := parsed_records root\<rparr>"
    by (simp add: refresh_success [where body = body])
  then show ?thesis
    by (simp add: parsed_records_def record_of_game_def)
qed

theorem refresh_replaces_batch_witness:
  "strip (profile_entry example_window) \<noteq> []
   \<and> games_store (on_refresh_click example_env selected_window) = [alpha_row, beta_row]
   \<and> \<not> toggled alpha_row \<and> \<not> toggled beta_row"
proof -
  have p: "strip (profile_entry example_window) \<noteq> []"
    by (simp add: example_profile)
  note r = refresh_replaces_batch [OF p example_get example_fromstring,
      of "[alpha_row\<lparr>toggled := True\<rparr>, beta_row]"]
  from r have "games_store (on_refresh_click example_env selected_window)
                 = [alpha_row, beta_row]"
    unfolding selected_window_def example_parsed by (rule conjunct1)
  moreover have "\<not> toggled alpha_row" "\<not> toggled beta_row"
    by (simp_all add: alpha_row_def beta_row_def)
  ultimately show ?thesis using p by blast
qed

text \<open>
  C5, as the claim states it, fails: \<open>game.find\<close> gives the first child of a tag, so a
  game whose first \<open>appID\<close> element is empty gets no record although it has an
  \<open>appID\<close> child with text and a \<open>name\<close> child with text.
\<close>

theorem refresh_later_child_counterexample:
  "claimed_games dup_root = [dup_game]
   \<and> games_store (on_refresh_click dup_env example_window) = []"
proof -
  have c: "claimed_games dup_root = [dup_game]"
    by (simp add: claimed_games_def has_text_child_def iter_tag_def dup_root_def dup_game_def
        leaf_def)
  have p: "strip (profile_entry example_window) \<noteq> []"
    by (simp add: example_profile)
  have g: "requests_get dup_env (games_url (strip (profile_entry example_window)))
             = Inr ''<gamesList/>''"
    unfolding example_profile by (simp add: dup_env_def example_env_def)
  have x: "ET_fromstring dup_env ''<gamesList/>'' = Inr dup_root"
    by (simp add: dup_env_def)
  have "parsed_records dup_root = []"
    by (simp add: parsed_records_def complete_games_def iter_tag_def has_field_def
        first_child_def dup_root_def dup_game_def leaf_def)
  with refresh_success [OF p g x]
  have "games_store (on_refresh_click dup_env example_window) = []"
    by simp
  with c show ?thesis by simp
qed

text \<open>
  C5, amended: for every response that parses, the records installed are, in document
  order, one record for each \<open>game\<close> element whose first \<open>appID\<close> child and first
  \<open>name\<close> child both have non-empty text, carrying those two texts, and none for a
  \<open>game\<close> element that lacks a child of either tag or whose first child of either tag has
  no text; no message is shown for the elements left out.
\<close>

theorem refresh_parses_complete_games:
  assumes "strip (profile_entry w) \<noteq> []"
    and "requests_get ev (games_url (strip (profile_entry w))) = Inr body"
    and "ET_fromstring ev body = Inr root"
  shows "games_store (on_refresh_click ev w)
           = map record_of_game
               (filter (\<lambda>g. has_field ''appID'' g \<and> has_field ''name'' g)
                  (iter_tag ''game'' root))
         \<and> dialogs (on_refresh_click ev w) = dialogs w"
  using refresh_success [OF assms] by (simp add: parsed_records_def complete_games_def)

theorem refresh_parses_complete_games_witness:
  "strip (profile_entry example_window) \<noteq> []
   \<and> length (iter_tag ''game'' example_root) = 5
   \<and> games_store (on_refresh_click example_env example_window) = [alpha_row, beta_row]
   \<and> dialogs (on_refresh_click example_env example_window) = []"
proof -
  have p: "strip (profile_entry example_window) \<noteq> []"
    by (simp add: example_profile)
  have n: "length (iter_tag ''game'' example_root) = 5"
    by (simp add: iter_tag_def example_root_def leaf_def)
  have d: "dialogs example_window = []"
    by (simp add: example_window_def)
  note r = refresh_parses_complete_games [OF p example_get example_fromstring]
  from r have "games_store (on_refresh_click example_env example_window)
                 = parsed_records example_root"
    unfolding parsed_records_def complete_games_def by (rule conjunct1)
  then have g: "games_store (on_refresh_click example_env example_window)
                  = [alpha_row, beta_row]"
    by (simp only: example_parsed)
  from r have "dialogs (on_refresh_click example_env example_window) = dialogs example_window"
    by (rule conjunct2)
  with d have "dialogs (on_refresh_click example_env example_window) = []"
    by simp
  with p n g show ?thesis by blast
qed

text \<open>
  C9: for every profile entry that is empty or whitespace only, the handler shows the
  message asking for a profile id and does nothing else: no URL is requested and the stored
  batch stays as it was. A URL is requested only when the stripped entry is non-empty, and
  then it is the URL built from the stripped entry.
\<close>

theorem empty_profile_no_request:
  "((\<forall>c \<in> set (profile_entry w). isspace c) \<longrightarrow>
      on_refresh_click ev w = show_message w ''Please enter a profile ID.''
      \<and> http_log (on_refresh_click ev w) = http_log w
      \<and> games_store (on_refresh_click ev w) = games_store w)
   \<and> (http_log (on_refresh_click ev w) \<noteq> http_log w \<longrightarrow>
        strip (profile_entry w) \<noteq> []
        \<and> http_log (on_refresh_click ev w)
            = http_log w @ [games_url (strip (profile_entry w))])"
proof (intro conjI impI)
  assume "\<forall>c \<in> set (profile_entry w). isspace c"
  then have e: "strip (profile_entry w) = []"
    by (simp add: strip_all_space)
  then show "on_refresh_click ev w = show_message w ''Please enter a profile ID.''"
    by (simp add: on_refresh_click_def)
  then show "http_log (on_refresh_click ev w) = http_log w"
    and "games_store (on_refresh_click ev w) = games_store w"
    by (simp_all add: show_message_def)
next
  assume "http_log (on_refresh_click ev w) \<noteq> http_log w"
  then show "strip (profile_entry w) \<noteq> []"
    by (auto simp: refresh_http_log)
  then show "http_log (on_refresh_click ev w)
               = http_log w @ [games_url (strip (profile_entry w))]"
    by (simp add: refresh_http_log)
qed

theorem empty_profile_no_request_witness:
  "isspace CHR '' ''
   \<and> http_log (on_refresh_click example_env (example_window\<lparr>profile_entry := ''  ''\<rparr>))
       = http_log (example_window\<lparr>profile_entry := ''  ''\<rparr>)
   \<and> on_refresh_click example_env (example_window\<lparr>profile_entry := ''  ''\<rparr>)
       = show_message (example_window\<lparr>profile_entry := ''  ''\<rparr>) ''Please enter a profile ID.''
   \<and> http_log (on_refresh_click example_env example_window) \<noteq> http_log example_window
   \<and> http_log (on_refresh_click example_env example_window)
       = http_log example_window @ [games_url ''gabe'']"
proof -
  have h: "\<forall>c \<in> set (profile_entry (example_window\<lparr>profile_entry := ''  ''\<rparr>)). isspace c"
    by (simp add: isspace_def)
  have n: "http_log (on_refresh_click example_env example_window) \<noteq> http_log example_window"
    by (simp add: refresh_http_log example_profile)
  note blank = empty_profile_no_request
    [of "example_window\<lparr>profile_entry := ''  ''\<rparr>" example_env, THEN conjunct1, THEN mp, OF h]
  note given = empty_profile_no_request
    [of example_window example_env, THEN conjunct2, THEN mp, OF n]
  from given have "http_log (on_refresh_click example_env example_window)
                     = http_log example_window @ [games_url ''gabe'']"
    unfolding example_profile by (rule conjunct2)
  moreover have "isspace CHR '' ''"
    by (simp add: isspace_def)
  ultimately show ?thesis using n blank by blast
qed


section \<open>Writing the manifests (C6, C7, C8)\<close>

lemma format_template:
  "py_format [(''app_id'', a), (''app_name'', n)] STEAM_MANIFEST_TEMPLATE = Inr (manifest_text a n)"
  by (simp add: STEAM_MANIFEST_TEMPLATE_def manifest_text_def)

lemma manifest_path_eq: "manifest_path D i = manifest_file D i"
  by (simp add: manifest_path_def os_path_join_def manifest_file_def)

lemma manifest_file_inj: "manifest_file D i = manifest_file D j \<longleftrightarrow> i = j"
  by (simp add: manifest_file_def)

lemma write_manifests_eq:
  "write_manifests ev D rows (c, w) =
     Inr (c + length (written ev D rows),
          w\<lparr>files := foldl (store_manifest D) (files w) (written ev D rows),
            dialogs := dialogs w @ map (error_dialog ev D) (failed ev D rows)\<rparr>)"
proof (induction rows arbitrary: c w)
  case Nil
  show ?case by (simp add: written_def failed_def)
next
  case (Cons r rows)
  show ?case
  proof (cases "toggled r")
    case False
    then show ?thesis
      by (simp add: Cons.IH written_def failed_def)
  next
    case True
    show ?thesis
    proof (cases "open_write ev (manifest_file D (app_id r))")
      case None
      with True show ?thesis
        by (simp add: Cons.IH format_template manifest_path_eq written_def failed_def
            store_manifest_def)
    next
      case (Some e)
      with True show ?thesis
        by (simp add: Cons.IH format_template manifest_path_eq written_def failed_def
            error_dialog_def show_message_def)
    qed
  qed
qed

lemma download_eq:
  assumes "os_path_isdir ev (library_entry w)"
  shows "on_download_click ev w =
     Inr (w\<lparr>files := foldl (store_manifest (library_entry w)) (files w)
                     (written ev (library_entry w) (games_store w)),
            dialogs := dialogs w
              @ map (error_dialog ev (library_entry w)) (failed ev (library_entry w) (games_store w))
              @ [success_dialog (length (written ev (library_entry w) (games_store w)))]\<rparr>)"
  using assms
  by (simp add: on_download_click_def Let_def write_manifests_eq show_message_def
      success_dialog_def)

lemma foldl_upd_lookup:
  assumes "distinct (map k rows)" and "r \<in> set rows"
  shows "foldl (\<lambda>f x. f(k x \<mapsto> v x)) f0 rows (k r) = Some (v r)"
  using assms
proof (induction rows arbitrary: r rule: rev_induct)
  case Nil
  then show ?case by simp
next
  case (snoc x xs)
  show ?case
  proof (cases "r = x")
    case True
    then show ?thesis by simp
  next
    case False
    with snoc.prems have in_xs: "r \<in> set xs" by simp
    then have "k r \<in> k ` set xs" by (rule imageI)
    moreover from snoc.prems(1) have "k x \<notin> k ` set xs" by simp
    ultimately have neq: "k r \<noteq> k x" by metis
    from snoc.prems(1) have "distinct (map k xs)" by simp
    from snoc.IH [OF this in_xs] neq show ?thesis by simp
  qed
qed

lemma foldl_store_lookup:
  assumes "distinct (map app_id rows)" and "r \<in> set rows"
  shows "foldl (store_manifest D) fs rows (manifest_file D (app_id r))
           = Some (manifest_text (app_id r) (game_name r))"
proof -
  from assms(1) have d: "distinct (map (\<lambda>x. manifest_file D (app_id x)) rows)"
    by (induction rows) (auto simp: manifest_file_inj)
  have "store_manifest D =
          (\<lambda>f x. f(manifest_file D (app_id x) \<mapsto> manifest_text (app_id x) (game_name x)))"
    by (intro ext) (simp add: store_manifest_def)
  with foldl_upd_lookup [OF d assms(2)] show ?thesis
    by simp
qed

lemma written_all:
  assumes "\<forall>r \<in> set rows. toggled r \<longrightarrow> open_write ev (manifest_file D (app_id r)) = None"
  shows "written ev D rows = filter toggled rows" and "failed ev D rows = []"
  using assms by (auto simp: written_def failed_def intro: filter_cong)

lemma written_failed_length:
  "length (written ev D rows) + length (failed ev D rows) = length (filter toggled rows)"
  by (induction rows) (auto simp: written_def failed_def)

lemma success_dialog_1: "success_dialog (Suc 0) = ''Successfully created 1 manifest files.''"
  by (simp add: success_dialog_def str_nat.simps char_of_def bit_iff_odd)

lemma success_dialog_2: "success_dialog (Suc (Suc 0)) = ''Successfully created 2 manifest files.''"
  by (simp add: success_dialog_def str_nat.simps char_of_def bit_iff_odd)

lemma lib_alpha: "manifest_file ''/lib'' ''10'' = ''/lib/appmanifest_10.acf''"
  by (simp add: manifest_file_def)

lemma lib_beta: "manifest_file ''/lib'' ''20'' = ''/lib/appmanifest_20.acf''"
  by (simp add: manifest_file_def)

text \<open>
  C6: for every library directory \<open>D\<close> that exists and every store, when no write fails the
  handler writes, for each selected record in the order of the store, the file
  \<open>appmanifest_<identifier>.acf\<close> in \<open>D\<close> with the AppState text in which the record's
  identifier and display name stand as they are, the display name both as name and as
  installdir, and it reports a count equal to the number of selected records. With selected
  identifiers that differ from one another, every selected record's file holds that record's
  text afterwards.
\<close>

theorem download_writes_selected:
  assumes "os_path_isdir ev (library_entry w)"
    and "\<forall>r \<in> set (games_store w).
           toggled r \<longrightarrow> open_write ev (manifest_file (library_entry w) (app_id r)) = None"
  shows "on_download_click ev w =
           Inr (w\<lparr>files := foldl (store_manifest (library_entry w)) (files w)
                           (filter toggled (games_store w)),
                  dialogs := dialogs w
                    @ [success_dialog (length (filter toggled (games_store w)))]\<rparr>)
         \<and> (distinct (map app_id (filter toggled (games_store w))) \<longrightarrow>
              (\<forall>r \<in> set (games_store w). toggled r \<longrightarrow>
                 foldl (store_manifest (library_entry w)) (files w)
                   (filter toggled (games_store w)) (manifest_file (library_entry w) (app_id r))
                 = Some (manifest_text (app_id r) (game_name r))))"
proof (intro conjI impI ballI)
  show "on_download_click ev w =
          Inr (w\<lparr>files := foldl (store_manifest (library_entry w)) (files w)
                          (filter toggled (games_store w)),
                 dialogs := dialogs w
                   @ [success_dialog (length (filter toggled (games_store w)))]\<rparr>)"
    by (simp add: download_eq [OF assms(1)] written_all [OF assms(2)])
next
  fix r
  assume "distinct (map app_id (filter toggled (games_store w)))"
    and "r \<in> set (games_store w)" and "toggled r"
  then show "foldl (store_manifest (library_entry w)) (files w)
               (filter toggled (games_store w)) (manifest_file (library_entry w) (app_id r))
             = Some (manifest_text (app_id r) (game_name r))"
    by (intro foldl_store_lookup) simp_all
qed

theorem download_writes_selected_witness:
  "os_path_isdir writable_env (library_entry both_selected)
   \<and> on_download_click writable_env both_selected =
       Inr (both_selected
             \<lparr>files := [''/lib/appmanifest_10.acf'' \<mapsto> manifest_text ''10'' ''Alpha'',
                        ''/lib/appmanifest_20.acf'' \<mapsto> manifest_text ''20'' ''Beta''],
              dialogs := [''Successfully created 2 manifest files.'']\<rparr>)"
proof -
  have d: "os_path_isdir writable_env (library_entry both_selected)"
    by (simp add: example_defs)
  have o: "\<forall>r \<in> set (games_store both_selected).
             toggled r \<longrightarrow>
               open_write writable_env (manifest_file (library_entry both_selected) (app_id r))
                 = None"
    by (simp add: example_defs)
  have l: "library_entry both_selected = ''/lib''"
    by (simp add: example_defs)
  have g: "filter toggled (games_store both_selected)
             = [alpha_row\<lparr>toggled := True\<rparr>, beta_row\<lparr>toggled := True\<rparr>]"
    by (simp add: example_defs)
  have f: "files both_selected = Map.empty" "dialogs both_selected = []"
    by (simp_all add: example_defs)
  have a: "app_id (alpha_row\<lparr>toggled := True\<rparr>) = ''10''"
    "game_name (alpha_row\<lparr>toggled := True\<rparr>) = ''Alpha''"
    "app_id (beta_row\<lparr>toggled := True\<rparr>) = ''20''"
    "game_name (beta_row\<lparr>toggled := True\<rparr>) = ''Beta''"
    by (simp_all add: alpha_row_def beta_row_def)
  from download_writes_selected [OF d o, THEN conjunct1] d show ?thesis
    by (simp add: l g f a store_manifest_def lib_alpha lib_beta success_dialog_2)
qed

text \<open>
  C7: for every library path that is not an existing directory, the handler shows the
  message that asks for a valid library path and ends there: no file is written, however
  many records are selected.
\<close>

theorem download_invalid_path:
  assumes "\<not> os_path_isdir ev (library_entry w)"
  shows "on_download_click ev w
           = Inr (show_message w ''Please provide a valid Steam library path.'')
         \<and> files (show_message w ''Please provide a valid Steam library path.'') = files w"
  using assms by (simp add: on_download_click_def show_message_def)

theorem download_invalid_path_witness:
  "\<not> os_path_isdir example_env (library_entry (both_selected\<lparr>library_entry := ''/nowhere''\<rparr>))
   \<and> on_download_click example_env (both_selected\<lparr>library_entry := ''/nowhere''\<rparr>)
       = Inr (both_selected
               \<lparr>library_entry := ''/nowhere'',
                dialogs := [''Please provide a valid Steam library path.'']\<rparr>)"
proof -
  have d: "\<not> os_path_isdir example_env
               (library_entry (both_selected\<lparr>library_entry := ''/nowhere''\<rparr>))"
    by (simp add: example_defs)
  have f: "dialogs both_selected = []"
    by (simp add: example_defs)
  from download_invalid_path [OF d, THEN conjunct1] d show ?thesis
    by (simp add: show_message_def f)
qed

text \<open>
  C8: for every library directory that exists, a write that fails with an \<open>OSError\<close> is
  reported in a message naming that record, and the loop goes on: every selected record of
  the store is either written or reported, the files written are those of the selected
  records whose write succeeded, and the count in the final message is their number.
\<close>

theorem download_continues_after_failure:
  assumes "os_path_isdir ev (library_entry w)"
  shows "on_download_click ev w =
           Inr (w\<lparr>files := foldl (store_manifest (library_entry w)) (files w)
                           (written ev (library_entry w) (games_store w)),
                  dialogs := dialogs w
                    @ map (error_dialog ev (library_entry w))
                        (failed ev (library_entry w) (games_store w))
                    @ [success_dialog
                         (length (written ev (library_entry w) (games_store w)))]\<rparr>)
         \<and> length (written ev (library_entry w) (games_store w))
             + length (failed ev (library_entry w) (games_store w))
           = length (filter toggled (games_store w))"
  using download_eq [OF assms] written_failed_length by simp

theorem download_continues_after_failure_witness:
  "os_path_isdir example_env (library_entry beta_first)
   \<and> on_download_click example_env beta_first =
       Inr (beta_first
             \<lparr>files := [''/lib/appmanifest_10.acf'' \<mapsto> manifest_text ''10'' ''Alpha''],
              dialogs := [''Error creating manifest for Beta: Permission denied'',
                          ''Successfully created 1 manifest files.'']\<rparr>)"
proof -
  have d: "os_path_isdir example_env (library_entry beta_first)"
    by (simp add: beta_first_def example_defs)
  have l: "library_entry beta_first = ''/lib''"
    by (simp add: beta_first_def example_defs)
  have g: "games_store beta_first
             = [beta_row\<lparr>toggled := True\<rparr>, alpha_row\<lparr>toggled := True\<rparr>]"
    by (simp add: beta_first_def)
  have a: "app_id (alpha_row\<lparr>toggled := True\<rparr>) = ''10''"
    "game_name (alpha_row\<lparr>toggled := True\<rparr>) = ''Alpha''"
    "app_id (beta_row\<lparr>toggled := True\<rparr>) = ''20''"
    "game_name (beta_row\<lparr>toggled := True\<rparr>) = ''Beta''"
    "toggled (alpha_row\<lparr>toggled := True\<rparr>)"
    "toggled (beta_row\<lparr>toggled := True\<rparr>)"
    by (simp_all add: alpha_row_def beta_row_def)
  have o: "open_write example_env ''/lib/appmanifest_10.acf'' = None"
    "open_write example_env ''/lib/appmanifest_20.acf'' = Some ''Permission denied''"
    by (simp_all add: example_env_def)
  have f: "files beta_first = Map.empty" "dialogs beta_first = []"
    by (simp_all add: beta_first_def example_defs)
  from download_continues_after_failure [OF d, THEN conjunct1] d show ?thesis
    by (simp add: l g a o f written_def failed_def error_dialog_def store_manifest_def
        lib_alpha lib_beta success_dialog_1)
qed

section \<open>Toggling through the filtered view (C3)\<close>










end
